theory Spec2Isabelle
  imports Main
begin

section \<open>Python strings\<close>

text \<open>
  A Python \<^verbatim>\<open>str\<close> is a sequence of Unicode code points, and the parser depends on
  code points outside ASCII (the ideographic full stop, the full-width colon, the
  Chinese labels), so a string is a list of code points. \<open>asc\<close> reads an ASCII
  literal.
\<close>

type_synonym pystr = "nat list"

definition asc :: "string \<Rightarrow> pystr" where
  "asc s = map of_char s"

text \<open>
  \<^verbatim>\<open>str.isspace\<close> on one code point; \<^verbatim>\<open>str.strip()\<close> and the regex class
  \<^verbatim>\<open>\s\<close> of a \<^verbatim>\<open>str\<close> pattern use the same set.
\<close>

definition py_isspace :: "nat \<Rightarrow> bool" where
  "py_isspace c =
     ((9 \<le> c \<and> c \<le> 13) \<or> (28 \<le> c \<and> c \<le> 32) \<or> c = 133 \<or> c = 160 \<or> c = 5760 \<or>
      (8192 \<le> c \<and> c \<le> 8202) \<or> c = 8232 \<or> c = 8233 \<or> c = 8239 \<or> c = 8287 \<or>
      c = 12288)"

definition lstrip :: "pystr \<Rightarrow> pystr" where
  "lstrip s = dropWhile py_isspace s"

definition rstrip :: "pystr \<Rightarrow> pystr" where
  "rstrip s = rev (dropWhile py_isspace (rev s))"

definition strip :: "pystr \<Rightarrow> pystr" where
  "strip s = rstrip (lstrip s)"

subsection \<open>String helpers\<close>

text \<open>\<^verbatim>\<open>s.startswith(p)\<close>, \<^verbatim>\<open>sub in s\<close> and \<^verbatim>\<open>sep.join(xs)\<close>.\<close>

definition startswith :: "pystr \<Rightarrow> pystr \<Rightarrow> bool" where
  "startswith s p = (take (length p) s = p)"

fun py_in :: "pystr \<Rightarrow> pystr \<Rightarrow> bool" where
  "py_in sub [] = (sub = [])"
| "py_in sub (c # cs) = (startswith (c # cs) sub \<or> py_in sub cs)"

fun py_join :: "pystr \<Rightarrow> pystr list \<Rightarrow> pystr" where
  "py_join sep [] = []"
| "py_join sep [x] = x"
| "py_join sep (x # y # ys) = x @ sep @ py_join sep (y # ys)"

text \<open>
  \<^verbatim>\<open>s.split(sep)\<close> for a separator of one code point: the text is cut at every
  occurrence, empty pieces are kept, and the empty string gives one empty piece.
  \<open>acc\<close> is the piece being read.
\<close>

fun split_acc :: "nat \<Rightarrow> pystr \<Rightarrow> pystr \<Rightarrow> pystr list" where
  "split_acc sep acc [] = [acc]"
| "split_acc sep acc (c # cs) =
     (if c = sep then acc # split_acc sep [] cs else split_acc sep (acc @ [c]) cs)"

definition split_on :: "nat \<Rightarrow> pystr \<Rightarrow> pystr list" where
  "split_on sep s = split_acc sep [] s"

section \<open>The Unicode tables of the Python runtime\<close>

text \<open>
  \<^verbatim>\<open>str.lower\<close>, the regex class \<^verbatim>\<open>\w\<close> (alphanumeric code points and the
  underscore) and the regex class \<^verbatim>\<open>\d\<close> (decimal digits) read the Unicode character
  database of the interpreter, which is no part of the repository. The functions that
  use them take the tables as a parameter.
\<close>

record unicode_tables =
  u_lower :: "pystr \<Rightarrow> pystr"
  u_isalnum :: "nat \<Rightarrow> bool"
  u_isdecimal :: "nat \<Rightarrow> bool"

definition ascii_lower :: "nat \<Rightarrow> nat" where
  "ascii_lower c = (if 65 \<le> c \<and> c \<le> 90 then c + 32 else c)"

definition ascii_isdigit :: "nat \<Rightarrow> bool" where
  "ascii_isdigit c = (48 \<le> c \<and> c \<le> 57)"

definition ascii_isalnum :: "nat \<Rightarrow> bool" where
  "ascii_isalnum c = (ascii_isdigit c \<or> (65 \<le> c \<and> c \<le> 90) \<or> (97 \<le> c \<and> c \<le> 122))"

text \<open>
  The tables cut down to ASCII: every other code point is taken as caseless, not
  alphanumeric and no digit. They are used to evaluate the functions on labels made of
  ASCII characters and CJK ideographs, where they give what CPython gives.
\<close>

definition basic_tables :: unicode_tables where
  "basic_tables =
     \<lparr>u_lower = map ascii_lower, u_isalnum = ascii_isalnum, u_isdecimal = ascii_isdigit\<rparr>"

section \<open>Python values and dictionaries\<close>

text \<open>
  A record of the scraper is a \<^verbatim>\<open>dict\<close> from strings to strings, integers, lists of
  strings or a nested dictionary. A \<^verbatim>\<open>dict\<close> keeps insertion order, and
  \<open>categorize_fields\<close> depends on it, so it is an association list with distinct keys:
  \<open>dict_set\<close> overwrites the value of a key in place and appends a new key at the end.
\<close>

datatype pyval = VStr pystr | VInt int | VList "pystr list" | VDict "(pystr \<times> pyval) list"

type_synonym pydict = "(pystr \<times> pyval) list"

text \<open>Truth value of a Python value, as \<^verbatim>\<open>not v\<close> reads it.\<close>

fun truthy :: "pyval \<Rightarrow> bool" where
  "truthy (VStr s) = (s \<noteq> [])"
| "truthy (VInt i) = (i \<noteq> 0)"
| "truthy (VList xs) = (xs \<noteq> [])"
| "truthy (VDict d) = (d \<noteq> [])"

fun dict_set :: "(pystr \<times> 'v) list \<Rightarrow> pystr \<Rightarrow> 'v \<Rightarrow> (pystr \<times> 'v) list" where
  "dict_set [] k v = [(k, v)]"
| "dict_set ((k', v') # d) k v = (if k' = k then (k, v) # d else (k', v') # dict_set d k v)"

definition has_key :: "(pystr \<times> 'v) list \<Rightarrow> pystr \<Rightarrow> bool" where
  "has_key d k = (map_of d k \<noteq> None)"

text \<open>\<^verbatim>\<open>k not in d or not d[k]\<close>\<close>

definition field_absent :: "pydict \<Rightarrow> pystr \<Rightarrow> bool" where
  "field_absent d k = (case map_of d k of None \<Rightarrow> True | Some v \<Rightarrow> \<not> truthy v)"

section \<open>scp\_parser.py\<close>

subsection \<open>SCPParser.normalize\_key\<close>

text \<open>\<open>FIELD_MAPPING\<close>, in the order of the dictionary literal (its keys are distinct).\<close>

definition FIELD_MAPPING :: "(pystr \<times> pystr) list" where
  "FIELD_MAPPING =
     [
      ([39033, 30446, 32534, 21495], asc ''id''),
      ([38917, 30446, 32232, 34399], asc ''id''),
      ([32534, 21495], asc ''id''),
      ([32232, 34399], asc ''id''),
      ([115, 99, 112, 32534, 21495], asc ''id''),
      ([115, 99, 112, 32232, 34399], asc ''id''),
      (asc ''item #'', asc ''id''),
      (asc ''item number'', asc ''id''),
      ([39033, 30446, 31561, 32423], asc ''class''),
      ([38917, 30446, 31561, 32026], asc ''class''),
      ([31561, 32423], asc ''class''),
      ([31561, 32026], asc ''class''),
      ([23545, 35937, 31561, 32423], asc ''class''),
      ([23565, 35937, 31561, 32026], asc ''class''),
      (asc ''object class'', asc ''class''),
      (asc ''classification'', asc ''class''),
      ([29305, 27530, 25910, 23481, 25514, 26045], asc ''containment''),
      ([29305, 27530, 25910, 23481, 31243, 24207], asc ''containment''),
      ([25910, 23481, 25514, 26045], asc ''containment''),
      ([25910, 23481, 31243, 24207], asc ''containment''),
      ([25910, 23481], asc ''containment''),
      (asc ''special containment procedures'', asc ''containment''),
      (asc ''containment'', asc ''containment''),
      (asc ''containment procedures'', asc ''containment''),
      ([25551, 36848], asc ''description''),
      ([38917, 30446, 25551, 36848], asc ''description''),
      ([39033, 30446, 25551, 36848], asc ''description''),
      ([35828, 26126], asc ''description''),
      ([35443, 36848], asc ''description''),
      (asc ''description'', asc ''description''),
      ([38468, 24405], asc ''addendum''),
      ([38468, 37636], asc ''addendum''),
      ([23454, 39564, 35760, 24405], asc ''experiment_log''),
      ([23526, 39511, 35352, 37636], asc ''experiment_log''),
      ([35775, 35848, 35760, 24405], asc ''interview_log''),
      ([35370, 35527, 35352, 37636], asc ''interview_log''),
      ([20107, 20214, 35760, 24405], asc ''incident_log''),
      ([20107, 20214, 35352, 37636], asc ''incident_log''),
      ([26356, 26032, 35760, 24405], asc ''update_log''),
      ([26356, 26032, 35352, 37636], asc ''update_log''),
      ([21382, 21490], asc ''history''),
      ([27511, 21490], asc ''history''),
      ([21457, 29616], asc ''discovery''),
      ([30332, 29694], asc ''discovery''),
      ([35387], asc ''notes''),
      ([27880], asc ''notes''),
      ([22791, 27880], asc ''notes''),
      ([35352, 37636, 38283, 22987], asc ''record_start''),
      ([35760, 24405, 24320, 22987], asc ''record_start''),
      ([35352, 37636, 32080, 26463], asc ''record_end''),
      ([35760, 24405, 32467, 26463], asc ''record_end'')]"

definition STANDARD_FIELDS :: "pystr list" where
  "STANDARD_FIELDS =
     [asc ''id'', asc ''class'', asc ''description'', asc ''containment'', asc ''addendum'',
      asc ''experiment_log'', asc ''interview_log'', asc ''incident_log'',
      asc ''update_log'', asc ''history'', asc ''discovery'', asc ''notes'',
      asc ''error'', asc ''warning'', asc ''series'', asc ''name'', asc ''images'',
      asc ''tags'']"

text \<open>\<^verbatim>\<open>key.rstrip('\<dots>:')\<close>: every trailing full-width or ASCII colon is removed.\<close>

definition is_colon :: "nat \<Rightarrow> bool" where
  "is_colon c = (c = 65306 \<or> c = 58)"

definition rstrip_colons :: "pystr \<Rightarrow> pystr" where
  "rstrip_colons s = rev (dropWhile is_colon (rev s))"

text \<open>
  \<^verbatim>\<open>re.sub(r'[^\w\u4e00-\u9fff]', '_', key)\<close>: each code point that is neither a
  word character nor in the range from U+4E00 to U+9FFF becomes an underscore.
\<close>

definition is_cjk :: "nat \<Rightarrow> bool" where
  "is_cjk c = (19968 \<le> c \<and> c \<le> 40959)"

definition slug_char :: "unicode_tables \<Rightarrow> nat \<Rightarrow> nat" where
  "slug_char U c = (if u_isalnum U c \<or> c = 95 \<or> is_cjk c then c else 95)"

text \<open>
  The loop over \<open>FIELD_MAPPING.items()\<close> returns at the first entry whose lowered
  pattern equals the lowered key.
\<close>

definition lookup_synonym :: "unicode_tables \<Rightarrow> pystr \<Rightarrow> (pystr \<times> pystr) option" where
  "lookup_synonym U key_lower =
     find (\<lambda>(pattern, standard_key). u_lower U pattern = key_lower) FIELD_MAPPING"

definition normalize_key :: "unicode_tables \<Rightarrow> pystr \<Rightarrow> pystr" where
  "normalize_key U key =
     (if key = [] then []
      else
        let key = rstrip_colons (strip key);
            key_lower = u_lower U key
        in case lookup_synonym U key_lower of
             Some (pattern, standard_key) \<Rightarrow> standard_key
           | None \<Rightarrow> u_lower U (map (slug_char U) key))"

text \<open>
  What the theorems below assume of the tables, each a fact of CPython: on a string of
  ASCII code points \<^verbatim>\<open>str.lower\<close> lowers the letters A to Z and changes nothing
  else; the patterns of \<open>FIELD_MAPPING\<close> are in lower case already; an ASCII code point
  is alphanumeric iff it is a digit or a letter; lowering a string keeps its underscores.
\<close>

definition tables_ok :: "unicode_tables \<Rightarrow> bool" where
  "tables_ok U =
     ((\<forall>s. list_all (\<lambda>c. c < 128) s \<longrightarrow> u_lower U s = map ascii_lower s)
      \<and> (\<forall>p \<in> fst ` set FIELD_MAPPING. u_lower U p = p)
      \<and> (\<forall>c. c < 128 \<longrightarrow> u_isalnum U c = ascii_isalnum c)
      \<and> (\<forall>s. 95 \<in> set s \<longrightarrow> 95 \<in> set (u_lower U s)))"

subsection \<open>SCPParser.clean\_value\<close>

text \<open>
  \<^verbatim>\<open>RE_REDACT\<close>: six literal alternatives, tried in this order at each position,
  compiled with \<^verbatim>\<open>re.IGNORECASE\<close>. The replacement is \<open>REDACTED\<close>.
\<close>

definition REDACTED :: pystr where
  "REDACTED = asc ''[REDACTED]''"

definition REDACT_ALTS :: "pystr list" where
  "REDACT_ALTS =
     [[91, 25968, 25454, 21024, 38500, 93],
      [91, 36164, 26009, 21024, 38500, 93],
      [91, 24050, 32534, 36753, 93],
      [91, 21024, 38500, 93],
      asc ''[REDACTED]'',
      asc ''[DATA EXPUNGED]'']"

text \<open>
  Case-insensitive comparison with a literal of the pattern. The literals hold brackets,
  a space, ideographs and the letters A, C, D, E, G, N, P, R, T, U, X; for each of these
  the only code points that \<^verbatim>\<open>re.IGNORECASE\<close> accepts are the letter itself and its
  ASCII counterpart of the other case, which is what comparing after \<open>ascii_lower\<close>
  gives.
\<close>

definition ci_prefix :: "pystr \<Rightarrow> pystr \<Rightarrow> bool" where
  "ci_prefix pat s =
     (length pat \<le> length s \<and> map ascii_lower (take (length pat) s) = map ascii_lower pat)"

definition redact_match :: "pystr \<Rightarrow> pystr option" where
  "redact_match s = find (\<lambda>alt. ci_prefix alt s) REDACT_ALTS"

text \<open>
  \<^verbatim>\<open>RE_REDACT.sub('[REDACTED]', value)\<close>: scan from the left; where an alternative
  matches, write the replacement and go on after the match, otherwise copy one code
  point.
\<close>

function sub_redact :: "pystr \<Rightarrow> pystr" where
  "sub_redact [] = []"
| "sub_redact (c # cs) =
     (case redact_match (c # cs) of
        Some alt \<Rightarrow> REDACTED @ sub_redact (drop (length alt) (c # cs))
      | None \<Rightarrow> c # sub_redact cs)"
  by pat_completeness auto
termination
proof (relation "measure length")
  fix c cs alt
  assume "redact_match (c # cs) = Some alt"
  then have "alt \<in> set REDACT_ALTS"
    by (auto simp: redact_match_def find_Some_iff)
  then have "alt \<noteq> []"
    by (auto simp: REDACT_ALTS_def asc_def)
  then show "(drop (length alt) (c # cs), c # cs) \<in> measure length"
    by (cases alt) auto
qed auto

text \<open>
  \<^verbatim>\<open>RE_WS.sub(' ', value)\<close> with \<^verbatim>\<open>RE_WS = \s+\<close>: every maximal run of white
  space becomes one space.
\<close>

function sub_ws :: "pystr \<Rightarrow> pystr" where
  "sub_ws [] = []"
| "sub_ws (c # cs) =
     (if py_isspace c then 32 # sub_ws (dropWhile py_isspace cs) else c # sub_ws cs)"
  by pat_completeness auto
termination
  by (relation "measure length") (auto simp: less_Suc_eq_le length_dropWhile_le)

text \<open>
  \<^verbatim>\<open>RE_COLON_PREFIX.sub('', value)\<close> with \<^verbatim>\<open>^[\<dots>:]\s*\<close> (full-width or ASCII
  colon): without \<^verbatim>\<open>re.MULTILINE\<close> the anchor matches at the start of the string
  only, so at most one colon is removed, with the white space after it.
\<close>

definition leading_colon :: "pystr \<Rightarrow> bool" where
  "leading_colon s = (case s of [] \<Rightarrow> False | c # _ \<Rightarrow> c = 65306 \<or> c = 58)"

definition sub_colon_prefix :: "pystr \<Rightarrow> pystr" where
  "sub_colon_prefix s = (if leading_colon s then dropWhile py_isspace (tl s) else s)"

definition clean_value :: "pystr \<Rightarrow> pystr" where
  "clean_value v =
     (if v = [] then []
      else strip (sub_colon_prefix (sub_ws (sub_redact v))))"

subsection \<open>SCPParser.deduplicate\_content\<close>

definition FULL_STOP :: nat where
  "FULL_STOP = 12290"

text \<open>
  The loop over \<open>sentences\<close>, with its two variables \<open>seen\<close> (a set) and
  \<open>unique_sentences\<close> (a list).
\<close>

fun dedup_loop :: "pystr list \<Rightarrow> pystr set \<Rightarrow> pystr list \<Rightarrow> pystr list" where
  "dedup_loop [] seen unique_sentences = unique_sentences"
| "dedup_loop (sentence # rest) seen unique_sentences =
     (if sentence \<notin> seen \<and> length sentence > 5
      then dedup_loop rest (insert sentence seen) (unique_sentences @ [sentence])
      else dedup_loop rest seen unique_sentences)"

definition deduplicate_content :: "pystr \<Rightarrow> pystr" where
  "deduplicate_content content =
     (if content = [] then content
      else
        let sentences = map strip (filter (\<lambda>s. strip s \<noteq> []) (split_on FULL_STOP content));
            unique_sentences = dedup_loop sentences {} []
        in py_join [FULL_STOP] unique_sentences
           @ (if unique_sentences \<noteq> [] then [FULL_STOP] else []))"

text \<open>
  The reference definition, following the specification's words: split on the
  terminator, trim each segment, keep it iff it has at least 6 characters and no
  identical segment was kept earlier, rejoin with the terminator and append one
  terminator iff a segment survived.
\<close>

fun keep_segments :: "pystr list \<Rightarrow> pystr list \<Rightarrow> pystr list" where
  "keep_segments kept [] = kept"
| "keep_segments kept (s # ss) =
     (let t = strip s
      in if 6 \<le> length t \<and> t \<notin> set kept then keep_segments (kept @ [t]) ss
         else keep_segments kept ss)"

definition kept_sentences :: "pystr \<Rightarrow> pystr list" where
  "kept_sentences content = keep_segments [] (split_on FULL_STOP content)"

definition dedup_reference :: "pystr \<Rightarrow> pystr" where
  "dedup_reference content =
     (let kept = kept_sentences content
      in py_join [FULL_STOP] kept @ (if kept \<noteq> [] then [FULL_STOP] else []))"

subsection \<open>SCPParser.extract\_id\_from\_url\<close>

text \<open>
  Decimal notation of an integer (\<^verbatim>\<open>str(i)\<close>), \<^verbatim>\<open>s.zfill(w)\<close>, which pads with
  zeros after a leading sign, and the format \<^verbatim>\<open>{i:03d}\<close>, which pads the digits
  with zeros to a width of 3 that counts the minus sign.
\<close>

fun digits :: "nat \<Rightarrow> pystr" where
  "digits n = (if n < 10 then [48 + n] else digits (n div 10) @ [48 + n mod 10])"

declare digits.simps [simp del]

definition py_str_int :: "int \<Rightarrow> pystr" where
  "py_str_int i = (if i < 0 then 45 # digits (nat (- i)) else digits (nat i))"

definition zfill :: "nat \<Rightarrow> pystr \<Rightarrow> pystr" where
  "zfill w s =
     (if w \<le> length s then s
      else case s of
             [] \<Rightarrow> replicate w 48
           | c # cs \<Rightarrow>
               if c = 43 \<or> c = 45 then c # replicate (w - length s) 48 @ cs
               else replicate (w - length s) 48 @ s)"

definition format_03d :: "int \<Rightarrow> pystr" where
  "format_03d i =
     (if i < 0
      then 45 # replicate (2 - length (digits (nat (- i)))) 48 @ digits (nat (- i))
      else replicate (3 - length (digits (nat i))) 48 @ digits (nat i))"

text \<open>
  \<^verbatim>\<open>re.search(r'scp-(\d+)', url, re.IGNORECASE)\<close>: the leftmost position where the
  letters, the hyphen and at least one digit stand; the group is the longest run of
  digits there. Under \<^verbatim>\<open>re.IGNORECASE\<close> the letter s is also matched by U+017F (the
  long s); c and p are matched by their two ASCII forms only.
\<close>

definition scp_dash_at :: "unicode_tables \<Rightarrow> pystr \<Rightarrow> bool" where
  "scp_dash_at U s =
     (case s of
        a # b # c # d # e # _ \<Rightarrow>
          (a = 115 \<or> a = 83 \<or> a = 383) \<and> (b = 99 \<or> b = 67) \<and> (c = 112 \<or> c = 80) \<and> d = 45
          \<and> u_isdecimal U e
      | _ \<Rightarrow> False)"

fun search_scp :: "unicode_tables \<Rightarrow> pystr \<Rightarrow> pystr option" where
  "search_scp U [] = None"
| "search_scp U (c # cs) =
     (if scp_dash_at U (c # cs) then Some (takeWhile (u_isdecimal U) (drop 4 (c # cs)))
      else search_scp U cs)"

definition extract_id_from_url :: "unicode_tables \<Rightarrow> pystr \<Rightarrow> pystr" where
  "extract_id_from_url U url =
     (case search_scp U url of
        Some group1 \<Rightarrow> asc ''SCP-'' @ zfill 3 group1
      | None \<Rightarrow> [])"

subsection \<open>SCPParser.ensure\_required\_fields\<close>

text \<open>
  \<^verbatim>\<open>if field in result and isinstance(result[field], str): result[field] =
  self.deduplicate_content(result[field])\<close>
\<close>

definition dedup_field :: "pydict \<Rightarrow> pystr \<Rightarrow> pydict" where
  "dedup_field result field =
     (case map_of result field of
        Some (VStr s) \<Rightarrow> dict_set result field (VStr (deduplicate_content s))
      | _ \<Rightarrow> result)"

definition ensure_required_fields :: "unicode_tables \<Rightarrow> pydict \<Rightarrow> int \<Rightarrow> pystr \<Rightarrow> pydict" where
  "ensure_required_fields U data scp_id url =
     (let result = data;
          result =
            (if field_absent result (asc ''id'')
             then
               (if url \<noteq> []
                then
                  (let extracted_id = extract_id_from_url U url
                   in if extracted_id \<noteq> [] then dict_set result (asc ''id'') (VStr extracted_id)
                      else dict_set result (asc ''id'') (VStr (asc ''SCP-'' @ format_03d scp_id)))
                else dict_set result (asc ''id'') (VStr (asc ''SCP-'' @ format_03d scp_id)))
             else result)
      in foldl dedup_field result [asc ''description'', asc ''containment''])"

subsection \<open>SCPParser.categorize\_fields\<close>

definition put_normalized :: "unicode_tables \<Rightarrow> pydict \<Rightarrow> pystr \<times> pyval \<Rightarrow> pydict" where
  "put_normalized U result kv = dict_set result (normalize_key U (fst kv)) (snd kv)"

definition categorize_fields :: "unicode_tables \<Rightarrow> pydict \<Rightarrow> pydict" where
  "categorize_fields U data =
     (let result = [];
          result =
            (case map_of data (asc ''more_info'') of
               Some (VDict existing_more_info) \<Rightarrow> foldl (put_normalized U) result existing_more_info
             | _ \<Rightarrow> result)
      in foldl (put_normalized U) result (filter (\<lambda>kv. fst kv \<noteq> asc ''more_info'') data))"

subsection \<open>SCPParser.parse\_page\_content\<close>

text \<open>
  A content block, as far as the parser reads it: the text of the element
  (\<^verbatim>\<open>element.get_text()\<close>) and the text of its first \<^verbatim>\<open>strong\<close> descendant
  (\<^verbatim>\<open>element.find('strong')\<close>), \<open>None\<close> when it has none.
\<close>

record block =
  get_text :: pystr
  strong_text :: "pystr option"

text \<open>The first two entries of \<open>stop_indicators\<close>, the guillemets U+00AB and U+2039.\<close>

definition STOP_INDICATORS :: "pystr list" where
  "STOP_INDICATORS = [[171], [8249]]"

definition endswith :: "pystr \<Rightarrow> pystr \<Rightarrow> bool" where
  "endswith s p = (length p \<le> length s \<and> drop (length s - length p) s = p)"

text \<open>
  The cursor of the loop: \<open>current_key\<close> is \<open>None\<close> at first and a string afterwards;
  \<^verbatim>\<open>if current_key:\<close> is false for \<open>None\<close> and for the empty string.
\<close>

definition key_open :: "pystr option \<Rightarrow> bool" where
  "key_open current_key = (case current_key of None \<Rightarrow> False | Some k \<Rightarrow> k \<noteq> [])"

text \<open>Storing the field that is open (before a new label, and after the loop).\<close>

definition flush :: "unicode_tables \<Rightarrow> pydict \<Rightarrow> pystr option \<Rightarrow> pystr \<Rightarrow> pydict" where
  "flush U result current_key current_value =
     (if key_open current_key
      then
        (let normalized_key = normalize_key U (the current_key);
             cleaned_value = clean_value current_value
         in if normalized_key \<noteq> [] \<and> cleaned_value \<noteq> []
            then dict_set result normalized_key (VStr cleaned_value)
            else result)
      else result)"

fun parse_loop ::
  "unicode_tables \<Rightarrow> block list \<Rightarrow> pydict \<Rightarrow> pystr option \<Rightarrow> pystr \<Rightarrow> pydict \<times> pystr option \<times> pystr"
where
  "parse_loop U [] result current_key current_value = (result, current_key, current_value)"
| "parse_loop U (element # rest) result current_key current_value =
     (let element_text = strip (get_text element)
      in if element_text = [] then parse_loop U rest result current_key current_value
         else if list_ex (\<lambda>indicator. py_in indicator element_text) STOP_INDICATORS
                 \<and> list_ex (startswith element_text) STOP_INDICATORS
         then (result, current_key, current_value)
         else
           (case strong_text element of
              Some strong \<Rightarrow>
                (let result = flush U result current_key current_value;
                     current_key = strip strong;
                     current_value = strip (drop (length current_key) element_text)
                 in parse_loop U rest result (Some current_key) current_value)
            | None \<Rightarrow>
                if key_open current_key
                then
                  (let current_value =
                         (if current_value \<noteq> [] \<and> \<not> endswith current_value [32]
                          then current_value @ [32] else current_value)
                   in parse_loop U rest result current_key (current_value @ element_text))
                else parse_loop U rest result current_key current_value))"

definition parse_page_content :: "unicode_tables \<Rightarrow> block list \<Rightarrow> int \<Rightarrow> pystr \<Rightarrow> pydict" where
  "parse_page_content U elements scp_id url =
     (case parse_loop U elements [] None [] of
        (result, current_key, current_value) \<Rightarrow>
          (let result = flush U result current_key current_value;
               result = ensure_required_fields U result scp_id url
           in categorize_fields U result))"

subsection \<open>SCPValidator.validate\<close>

definition REQUIRED_FIELDS :: "pystr list" where
  "REQUIRED_FIELDS = [asc ''id'']"

definition RECOMMENDED_FIELDS :: "pystr list" where
  "RECOMMENDED_FIELDS = [asc ''class'', asc ''containment'', asc ''description'']"

text \<open>The two message prefixes, each ending with a colon and a space.\<close>

definition MSG_REQUIRED :: pystr where
  "MSG_REQUIRED = [32570, 23569, 24517, 38656, 23383, 27573, 58, 32]"

definition MSG_RECOMMENDED :: pystr where
  "MSG_RECOMMENDED = [32570, 23569, 25512, 33616, 23383, 27573, 58, 32]"

text \<open>
  \<open>validate\<close> writes into the dictionary it is given and returns it; the model returns
  the updated dictionary. No statement of the function can raise on a record whose
  values are of type \<open>pyval\<close>, so the result is a plain value.
\<close>

definition validate :: "pydict \<Rightarrow> pydict" where
  "validate d =
     (let issues = map (\<lambda>f. MSG_REQUIRED @ f) (filter (field_absent d) REQUIRED_FIELDS);
          missing_recommended = filter (field_absent d) RECOMMENDED_FIELDS;
          issues = (if missing_recommended \<noteq> []
                    then issues @ [MSG_RECOMMENDED @ py_join (asc '', '') missing_recommended]
                    else issues)
      in if issues \<noteq> [] then dict_set d (asc ''validation_issues'') (VList issues) else d)"

section \<open>temp\_scraper.py: series number\<close>

text \<open>
  \<^verbatim>\<open>series = (_id // 1000) + 1; return max(1, min(series, 9))\<close>.
  Python's \<^verbatim>\<open>//\<close> on \<^verbatim>\<open>int\<close> rounds towards minus infinity, as \<open>div\<close> on
  \<open>int\<close> does.
\<close>

definition get_series_number :: "int \<Rightarrow> int" where
  "get_series_number i = (let series = i div 1000 + 1 in max 1 (min series 9))"

text \<open>The specification's wording: a value clamped to the interval from \<open>lo\<close> to \<open>hi\<close>.\<close>

definition clamped :: "int \<Rightarrow> int \<Rightarrow> int \<Rightarrow> int" where
  "clamped lo hi x = (if x < lo then lo else if hi < x then hi else x)"

section \<open>Notions used in the proofs\<close>

text \<open>
  A string is white-space normal when its only white-space code point is the space and
  no two spaces are adjacent: the strings that \<open>sub_ws\<close> leaves unchanged.
\<close>

fun ws_normal :: "pystr \<Rightarrow> bool" where
  "ws_normal [] = True"
| "ws_normal [c] = (if py_isspace c then c = 32 else True)"
| "ws_normal (c # d # cs) =
     ((if py_isspace c then c = 32 \<and> \<not> py_isspace d else True) \<and> ws_normal (d # cs))"

text \<open>A value that is a non-empty string.\<close>

fun nonempty_str :: "pyval \<Rightarrow> bool" where
  "nonempty_str (VStr s) = (s \<noteq> [])"
| "nonempty_str _ = False"

text \<open>
  The identifier that \<open>ensure_required_fields\<close> writes when the record has none: the one
  read from the URL if the URL is not empty and holds one, else the one built from the
  number.
\<close>

definition fallback_id :: "unicode_tables \<Rightarrow> int \<Rightarrow> pystr \<Rightarrow> pystr" where
  "fallback_id U scp_id url =
     (if url \<noteq> [] \<and> extract_id_from_url U url \<noteq> [] then extract_id_from_url U url
      else asc ''SCP-'' @ format_03d scp_id)"

text \<open>
  The shape of an identifier: the prefix \<open>SCP-\<close>, then at least three code points, each
  a digit (an ASCII digit, or a decimal digit of the tables when it was read from a URL).
\<close>

definition scp_id_shape :: "unicode_tables \<Rightarrow> pystr \<Rightarrow> bool" where
  "scp_id_shape U s =
     (startswith s (asc ''SCP-'') \<and> 3 \<le> length (drop 4 s)
      \<and> list_all (\<lambda>c. ascii_isdigit c \<or> u_isdecimal U c) (drop 4 s))"

section \<open>Theorems\<close>

subsection \<open>Evaluation rules\<close>

lemmas string_eval =
  split_on_def strip_def lstrip_def rstrip_def py_isspace_def FULL_STOP_def asc_def
  startswith_def

subsection \<open>Sentence de-duplication\<close>

lemma dedup_loop_keep_segments:
  "dedup_loop (map strip (filter (\<lambda>s. strip s \<noteq> []) segs)) (set kept) kept = keep_segments kept segs"
proof (induction segs arbitrary: kept)
  case Nil
  show ?case by simp
next
  case (Cons s segs)
  have step: "dedup_loop (map strip (filter (\<lambda>s. strip s \<noteq> []) segs)) (set (kept @ [strip s])) (kept @ [strip s])
      = keep_segments (kept @ [strip s]) segs"
    by (rule Cons.IH)
  show ?case
  proof (cases "strip s = []")
    case True
    then show ?thesis using Cons.IH [of kept] by simp
  next
    case False
    then show ?thesis using Cons.IH [of kept] step
      by (auto simp: Let_def Suc_le_eq)
  qed
qed

lemma strip_Nil: "strip [] = []"
  by (simp add: strip_def lstrip_def rstrip_def)

lemma deduplicate_content_eq_reference: "deduplicate_content c = dedup_reference c"
proof (cases "c = []")
  case True
  then show ?thesis
    by (simp add: deduplicate_content_def dedup_reference_def kept_sentences_def split_on_def strip_Nil)
next
  case False
  then show ?thesis
    using dedup_loop_keep_segments [of "split_on FULL_STOP c" "[]"]
    by (simp add: deduplicate_content_def dedup_reference_def kept_sentences_def Let_def)
qed

lemma distinct_keep_segments: "distinct kept \<Longrightarrow> distinct (keep_segments kept segs)"
  by (induction segs arbitrary: kept) (auto simp: Let_def)

lemma split_acc_no_sep:
  "sep \<notin> set t \<Longrightarrow> split_acc sep acc (t @ sep # rest) = (acc @ t) # split_acc sep [] rest"
  by (induction t arbitrary: acc) auto

lemma repeated_sentence_kept_once:
  assumes "FULL_STOP \<notin> set t" "strip t = t" "6 \<le> length t"
  shows "deduplicate_content (t @ [FULL_STOP] @ t @ [FULL_STOP]) = t @ [FULL_STOP]"
proof -
  have "split_on FULL_STOP (t @ [FULL_STOP] @ t @ [FULL_STOP]) = [t, t, []]"
    using assms(1) by (simp add: split_on_def split_acc_no_sep)
  then have "kept_sentences (t @ [FULL_STOP] @ t @ [FULL_STOP]) = [t]"
    using assms(2,3) by (simp add: kept_sentences_def strip_Nil)
  then show ?thesis
    by (simp add: deduplicate_content_eq_reference dedup_reference_def)
qed

text \<open>
  C5. For every input, \<open>deduplicate_content\<close> equals the reference definition (split on
  the ideographic full stop, trim, keep a segment iff it has at least 6 characters and
  was not kept before, in input order, rejoin and close with one terminator iff a
  segment survived). The kept segments are pairwise distinct, so a sentence (a trimmed
  segment of at least 6 characters) written twice appears once in the output.
\<close>

theorem deduplicate_content_reference:
  "deduplicate_content c = dedup_reference c
   \<and> distinct (kept_sentences c)
   \<and> (FULL_STOP \<notin> set t \<and> strip t = t \<and> 6 \<le> length t \<longrightarrow>
        deduplicate_content (t @ [FULL_STOP] @ t @ [FULL_STOP]) = t @ [FULL_STOP])"
  using deduplicate_content_eq_reference [of c] distinct_keep_segments [of "[]"]
    repeated_sentence_kept_once [of t]
  by (simp add: kept_sentences_def)

theorem deduplicate_content_reference_witness:
  "FULL_STOP \<notin> set [27979, 35797, 20869, 23481, 27979, 35797]
   \<and> strip [27979, 35797, 20869, 23481, 27979, 35797] = [27979, 35797, 20869, 23481, 27979, 35797]
   \<and> 6 \<le> length [27979, 35797, 20869, 23481, 27979, 35797 :: nat]
   \<and> deduplicate_content
         ([27979, 35797, 20869, 23481, 27979, 35797] @ [FULL_STOP]
          @ [27979, 35797, 20869, 23481, 27979, 35797] @ [FULL_STOP])
       = [27979, 35797, 20869, 23481, 27979, 35797] @ [FULL_STOP]"
  using deduplicate_content_reference [of "[]" "[27979, 35797, 20869, 23481, 27979, 35797]"]
  by (simp add: string_eval)

subsection \<open>Validation\<close>

lemma map_of_dict_set: "map_of (dict_set d k v) = (map_of d)(k \<mapsto> v)"
  by (induction d k v rule: dict_set.induct) auto

lemma validate_other_keys:
  "k \<noteq> asc ''validation_issues'' \<Longrightarrow> map_of (validate d) k = map_of d k"
  by (simp add: validate_def Let_def map_of_dict_set)

lemma validate_complete:
  "\<forall>f \<in> set (REQUIRED_FIELDS @ RECOMMENDED_FIELDS). \<not> field_absent d f \<Longrightarrow> validate d = d"
  by (simp add: validate_def Let_def REQUIRED_FIELDS_def RECOMMENDED_FIELDS_def)

lemma validate_changes:
  "validate d \<noteq> d \<Longrightarrow> \<exists>f \<in> set (REQUIRED_FIELDS @ RECOMMENDED_FIELDS). field_absent d f"
  using validate_complete by blast

lemma validate_only_id:
  "truthy v \<Longrightarrow> validate [(asc ''id'', v)] =
     [(asc ''id'', v),
      (asc ''validation_issues'', VList [MSG_RECOMMENDED @ asc ''class, containment, description''])]"
  by (simp add: validate_def field_absent_def REQUIRED_FIELDS_def RECOMMENDED_FIELDS_def asc_def)

lemma issue_mentions:
  "\<forall>f \<in> set RECOMMENDED_FIELDS. py_in f (MSG_RECOMMENDED @ asc ''class, containment, description'')"
  by (simp add: RECOMMENDED_FIELDS_def MSG_RECOMMENDED_def asc_def startswith_def)

lemma validate_incomplete:
  assumes "\<exists>f \<in> set (REQUIRED_FIELDS @ RECOMMENDED_FIELDS). field_absent d f"
  shows "\<exists>issues. issues \<noteq> [] \<and> map_of (validate d) (asc ''validation_issues'') = Some (VList issues)"
proof (cases "filter (field_absent d) RECOMMENDED_FIELDS = []")
  case True
  with assms have "field_absent d (asc ''id'')"
    by (auto simp: REQUIRED_FIELDS_def filter_empty_conv)
  with True show ?thesis
    by (simp add: validate_def Let_def map_of_dict_set REQUIRED_FIELDS_def)
next
  case False
  then show ?thesis
    by (simp add: validate_def Let_def map_of_dict_set)
qed

text \<open>
  C7. \<open>validate\<close> agrees with its input on every key other than
  \<open>validation_issues\<close>; it is a total function (no statement of it can raise); it
  returns its input unchanged when the required and the recommended fields are all
  present and non-empty, so that no \<open>validation_issues\<close> key is added, and it stores a
  non-empty list of issues under that key when one of them is missing or empty. A
  record with only \<open>id\<close> set gets one issue, which names the three recommended fields.
\<close>

theorem validate_frame:
  "(\<forall>k. k \<noteq> asc ''validation_issues'' \<longrightarrow> map_of (validate d) k = map_of d k)
   \<and> ((\<forall>f \<in> set (REQUIRED_FIELDS @ RECOMMENDED_FIELDS). \<not> field_absent d f) \<longrightarrow> validate d = d)
   \<and> ((\<exists>f \<in> set (REQUIRED_FIELDS @ RECOMMENDED_FIELDS). field_absent d f) \<longrightarrow>
        (\<exists>issues. issues \<noteq> [] \<and>
           map_of (validate d) (asc ''validation_issues'') = Some (VList issues)))
   \<and> (truthy v \<longrightarrow>
        validate [(asc ''id'', v)] =
          [(asc ''id'', v),
           (asc ''validation_issues'',
            VList [MSG_RECOMMENDED @ asc ''class, containment, description''])])
   \<and> (\<forall>f \<in> set RECOMMENDED_FIELDS.
         py_in f (MSG_RECOMMENDED @ asc ''class, containment, description''))"
  using validate_other_keys [of _ d] validate_complete [of d] validate_incomplete [of d]
    validate_only_id [of v] issue_mentions
  by blast

text \<open>
  C8. For every integer identifier, \<open>get_series_number\<close> is the identifier divided by
  1000 (integer division) plus one, clamped to the interval from 1 to 9; the result is
  never above 9 nor below 1; 1500 maps to 2 and 15000 to 9.
\<close>

theorem get_series_number_clamp:
  "get_series_number n = clamped 1 9 (n div 1000 + 1)
   \<and> 1 \<le> get_series_number n \<and> get_series_number n \<le> 9
   \<and> get_series_number 1500 = 2 \<and> get_series_number 15000 = 9"
  by (simp add: get_series_number_def clamped_def Let_def)

theorem validate_frame_witness:
  "asc ''id'' \<noteq> asc ''validation_issues''
   \<and> map_of (validate [(asc ''id'', VStr (asc ''SCP-007''))]) (asc ''id'')
       = map_of [(asc ''id'', VStr (asc ''SCP-007''))] (asc ''id'')
   \<and> \<not> field_absent [(asc ''id'', VStr (asc ''SCP-040'')), (asc ''class'', VStr (asc ''Euclid'')),
          (asc ''containment'', VStr (asc ''locked'')), (asc ''description'', VStr (asc ''a cube''))]
         (asc ''id'')
   \<and> validate [(asc ''id'', VStr (asc ''SCP-040'')), (asc ''class'', VStr (asc ''Euclid'')),
          (asc ''containment'', VStr (asc ''locked'')), (asc ''description'', VStr (asc ''a cube''))]
       = [(asc ''id'', VStr (asc ''SCP-040'')), (asc ''class'', VStr (asc ''Euclid'')),
          (asc ''containment'', VStr (asc ''locked'')), (asc ''description'', VStr (asc ''a cube''))]
   \<and> field_absent [(asc ''id'', VStr (asc ''SCP-007''))] (asc ''class'')
   \<and> truthy (VStr (asc ''SCP-007''))
   \<and> validate [(asc ''id'', VStr (asc ''SCP-007''))]
       = [(asc ''id'', VStr (asc ''SCP-007'')),
          (asc ''validation_issues'',
           VList [MSG_RECOMMENDED @ asc ''class, containment, description''])]
   \<and> py_in (asc ''class'') (MSG_RECOMMENDED @ asc ''class, containment, description'')
   \<and> py_in (asc ''containment'') (MSG_RECOMMENDED @ asc ''class, containment, description'')
   \<and> py_in (asc ''description'') (MSG_RECOMMENDED @ asc ''class, containment, description'')"
  using validate_frame [of "[(asc ''id'', VStr (asc ''SCP-007''))]" "VStr (asc ''SCP-007'')"]
    validate_frame [of "[(asc ''id'', VStr (asc ''SCP-040'')), (asc ''class'', VStr (asc ''Euclid'')),
          (asc ''containment'', VStr (asc ''locked'')), (asc ''description'', VStr (asc ''a cube''))]"
       "VStr (asc ''SCP-007'')"]
  by (simp add: field_absent_def REQUIRED_FIELDS_def RECOMMENDED_FIELDS_def asc_def)

subsection \<open>Value cleaning\<close>

lemmas clean_eval =
  clean_value_def sub_colon_prefix_def leading_colon_def redact_match_def REDACT_ALTS_def
  ci_prefix_def ascii_lower_def REDACTED_def

lemma space_isspace: "py_isspace 32"
  by (simp add: py_isspace_def)

lemma sub_ws_head:
  "sub_ws (x # xs) = y # ys \<Longrightarrow> py_isspace y = py_isspace x"
  by (auto simp: space_isspace split: if_splits)

lemma ws_normal_Cons:
  "ws_normal (c # t) =
     ((if py_isspace c then c = 32 \<and> (t = [] \<or> \<not> py_isspace (hd t)) else True) \<and> ws_normal t)"
  by (cases t) auto

lemma ws_normal_sub_ws: "ws_normal (sub_ws s)"
proof (induction s rule: sub_ws.induct)
  case 1
  show ?case by simp
next
  case (2 c cs)
  show ?case
  proof (cases "py_isspace c")
    case True
    let ?r = "dropWhile py_isspace cs"
    have tail: "ws_normal (sub_ws ?r)"
      using 2(1) True by simp
    have "sub_ws ?r = [] \<or> \<not> py_isspace (hd (sub_ws ?r))"
    proof (cases ?r)
      case Nil
      have "sub_ws [] = []" by simp
      then show ?thesis unfolding Nil by (rule disjI1)
    next
      case (Cons x xs)
      then have "\<not> py_isspace x"
        using hd_dropWhile [of py_isspace cs] by auto
      moreover obtain y ys where "sub_ws (x # xs) = y # ys"
        by (cases "sub_ws (x # xs)") (auto split: if_splits)
      ultimately show ?thesis
        using sub_ws_head [of x xs y ys] Cons by simp
    qed
    with tail True show ?thesis
      by (simp add: ws_normal_Cons space_isspace)
  next
    case False
    then show ?thesis
      using 2(2) by (simp add: ws_normal_Cons)
  qed
qed

lemma sub_ws_ws_normal: "ws_normal s \<Longrightarrow> sub_ws s = s"
proof (induction s rule: ws_normal.induct)
  case 1
  show ?case by simp
next
  case (2 c)
  then show ?case by (auto split: if_splits)
next
  case (3 c d cs)
  then show ?case by (auto split: if_splits)
qed

lemma ws_normal_append: "ws_normal (a @ b) \<Longrightarrow> ws_normal a \<and> ws_normal b"
proof (induction a rule: ws_normal.induct)
  case 1
  then show ?case by simp
next
  case (2 c)
  then show ?case by (cases b) (auto split: if_splits)
next
  case (3 c d cs)
  then show ?case by (auto split: if_splits)
qed

lemma ws_normal_dropWhile: "ws_normal s \<Longrightarrow> ws_normal (dropWhile P s)"
  using ws_normal_append [of "takeWhile P s" "dropWhile P s"] by simp

lemma ws_normal_rstrip: "ws_normal s \<Longrightarrow> ws_normal (rstrip s)"
proof -
  assume a: "ws_normal s"
  have "s = rstrip s @ rev (takeWhile py_isspace (rev s))"
    unfolding rstrip_def
    by (metis rev_append rev_rev_ident takeWhile_dropWhile_id)
  then show ?thesis
    using a ws_normal_append [of "rstrip s" "rev (takeWhile py_isspace (rev s))"] by simp
qed

lemma ws_normal_strip: "ws_normal s \<Longrightarrow> ws_normal (strip s)"
  by (simp add: strip_def lstrip_def ws_normal_dropWhile ws_normal_rstrip)

lemma ws_normal_tl: "ws_normal s \<Longrightarrow> ws_normal (tl s)"
  by (cases s) (auto simp: ws_normal_Cons)

lemma ws_normal_sub_colon_prefix: "ws_normal s \<Longrightarrow> ws_normal (sub_colon_prefix s)"
  by (simp add: sub_colon_prefix_def ws_normal_dropWhile ws_normal_tl)

lemma lstrip_id: "s = [] \<or> \<not> py_isspace (hd s) \<Longrightarrow> lstrip s = s"
  by (cases s) (auto simp: lstrip_def)

lemma rstrip_id: "s = [] \<or> \<not> py_isspace (last s) \<Longrightarrow> rstrip s = s"
proof -
  assume "s = [] \<or> \<not> py_isspace (last s)"
  then have "rev s = [] \<or> \<not> py_isspace (hd (rev s))"
    by (auto simp: hd_rev)
  then have "dropWhile py_isspace (rev s) = rev s"
    by (cases "rev s") auto
  then show ?thesis by (simp add: rstrip_def)
qed

lemma rstrip_last: "rstrip s = [] \<or> \<not> py_isspace (last (rstrip s))"
proof (cases "dropWhile py_isspace (rev s)")
  case Nil
  then show ?thesis by (simp add: rstrip_def)
next
  case (Cons x xs)
  then have "\<not> py_isspace x"
    using hd_dropWhile [of py_isspace "rev s"] by auto
  with Cons show ?thesis by (simp add: rstrip_def)
qed

lemma rstrip_hd: "s = [] \<or> \<not> py_isspace (hd s) \<Longrightarrow> rstrip s = [] \<or> \<not> py_isspace (hd (rstrip s))"
proof (cases s)
  case Nil
  then show ?thesis by (simp add: rstrip_def)
next
  case (Cons c cs)
  assume "s = [] \<or> \<not> py_isspace (hd s)"
  with Cons have nc: "\<not> py_isspace c" by simp
  have "rev s = rev cs @ [c]" using Cons by simp
  then have "dropWhile py_isspace (rev s) = dropWhile py_isspace (rev cs) @ [c]"
    using nc by (simp add: dropWhile_append)
  then have "rstrip s = c # rev (dropWhile py_isspace (rev cs))"
    by (simp add: rstrip_def)
  with nc show ?thesis by simp
qed

lemma lstrip_hd: "lstrip s = [] \<or> \<not> py_isspace (hd (lstrip s))"
  using hd_dropWhile [of py_isspace s] by (auto simp: lstrip_def)

lemma strip_strip: "strip (strip s) = strip s"
proof -
  have h: "strip s = [] \<or> \<not> py_isspace (hd (strip s))"
    unfolding strip_def by (rule rstrip_hd) (rule lstrip_hd)
  have l: "strip s = [] \<or> \<not> py_isspace (last (strip s))"
    unfolding strip_def by (rule rstrip_last)
  show ?thesis
    using h l by (simp add: strip_def [of "strip s"] lstrip_id rstrip_id)
qed

lemma clean_value_shape: "ws_normal (clean_value s) \<and> strip (clean_value s) = clean_value s"
  by (simp add: clean_value_def ws_normal_sub_ws ws_normal_sub_colon_prefix ws_normal_strip
      strip_strip strip_Nil)

lemma clean_value_fixed:
  assumes "ws_normal v" "strip v = v" "\<not> leading_colon v" "sub_redact v = v"
  shows "clean_value v = v"
  using assms by (simp add: clean_value_def sub_ws_ws_normal sub_colon_prefix_def)

text \<open>
  C3, as stated, fails: cleaning removes one leading colon only, so the value
  \<open>::x\<close> is cleaned to \<open>:x\<close>, and cleaning that again gives \<open>x\<close>.
\<close>

theorem clean_value_not_idempotent:
  "clean_value (clean_value (asc ''::x'')) \<noteq> clean_value (asc ''::x'')"
  by (simp add: clean_eval string_eval)

text \<open>
  C3, amended. Cleaning a cleaned value returns it unchanged whenever the cleaned value
  does not begin with a colon (ASCII or full-width) and the redaction substitution
  leaves it unchanged, that is, it holds no redaction marker in another spelling than
  the canonical token.
\<close>

theorem clean_value_idempotent_if:
  "\<not> leading_colon (clean_value s) \<Longrightarrow> sub_redact (clean_value s) = clean_value s \<Longrightarrow>
   clean_value (clean_value s) = clean_value s"
  using clean_value_shape [of s] by (simp add: clean_value_fixed)

theorem clean_value_idempotent_if_witness:
  "\<not> leading_colon (clean_value (asc ''[redacted]  a''))
   \<and> sub_redact (clean_value (asc ''[redacted]  a'')) = clean_value (asc ''[redacted]  a'')
   \<and> clean_value (clean_value (asc ''[redacted]  a'')) = clean_value (asc ''[redacted]  a'')"
  using clean_value_idempotent_if [of "asc ''[redacted]  a''"]
  by (simp add: clean_eval string_eval)

subsection \<open>Key normalisation\<close>

lemmas key_eval =
  normalize_key_def lookup_synonym_def FIELD_MAPPING_def rstrip_colons_def is_colon_def
  slug_char_def is_cjk_def basic_tables_def ascii_lower_def ascii_isalnum_def ascii_isdigit_def

lemma basic_tables_ok: "tables_ok basic_tables"
proof -
  have a: "\<forall>p \<in> fst ` set FIELD_MAPPING. u_lower basic_tables p = p"
    by (simp add: FIELD_MAPPING_def basic_tables_def ascii_lower_def asc_def)
  have b: "\<forall>s. 95 \<in> set s \<longrightarrow> 95 \<in> set (u_lower basic_tables s)"
    by (auto simp: basic_tables_def ascii_lower_def image_iff intro!: bexI [where x = 95])
  show ?thesis
    using a b by (simp add: tables_ok_def) (simp add: basic_tables_def)
qed

lemma slug_unchanged:
  "95 \<notin> set (map (slug_char U) k) \<Longrightarrow> map (slug_char U) k = k"
  by (induction k) (auto simp: slug_char_def split: if_splits)

lemma fallback_not_pattern:
  assumes ok: "tables_ok U"
    and none: "lookup_synonym U (u_lower U k) = None"
    and pat: "(p, c) \<in> set FIELD_MAPPING"
    and nous: "95 \<notin> set p"
  shows "u_lower U (map (slug_char U) k) \<noteq> p"
proof
  assume eq: "u_lower U (map (slug_char U) k) = p"
  have "95 \<notin> set (map (slug_char U) k)"
  proof
    assume "95 \<in> set (map (slug_char U) k)"
    with ok have "95 \<in> set (u_lower U (map (slug_char U) k))"
      by (simp add: tables_ok_def)
    with eq nous show False by simp
  qed
  then have "map (slug_char U) k = k"
    by (rule slug_unchanged)
  with eq have "u_lower U k = p" by simp
  moreover have "u_lower U p = p"
    using ok pat by (force simp: tables_ok_def)
  ultimately have "\<exists>x \<in> set FIELD_MAPPING. (\<lambda>(pattern, standard_key). u_lower U pattern = u_lower U k) x"
    using pat by force
  then have "lookup_synonym U (u_lower U k) \<noteq> None"
    unfolding lookup_synonym_def find_None_iff by blast
  with none show False by simp
qed

lemma patterns_no_underscore: "\<forall>p \<in> fst ` set FIELD_MAPPING. 95 \<notin> set p"
  by (simp add: FIELD_MAPPING_def asc_def)

lemma normalize_key_fallback_eq:
  "key \<noteq> [] \<Longrightarrow> lookup_synonym U (u_lower U (rstrip_colons (strip key))) = None \<Longrightarrow>
   normalize_key U key = u_lower U (map (slug_char U) (rstrip_colons (strip key)))"
  by (simp add: normalize_key_def Let_def)

lemma fallback_not_table_key:
  assumes "tables_ok U" "key \<noteq> []"
    "lookup_synonym U (u_lower U (rstrip_colons (strip key))) = None"
  shows "normalize_key U key \<notin> fst ` set FIELD_MAPPING"
proof
  assume "normalize_key U key \<in> fst ` set FIELD_MAPPING"
  then obtain c where pc: "(normalize_key U key, c) \<in> set FIELD_MAPPING" by auto
  then have "95 \<notin> set (normalize_key U key)"
    using patterns_no_underscore by force
  with fallback_not_pattern [OF assms(1) assms(3) pc]
  show False using normalize_key_fallback_eq [OF assms(2,3)] by simp
qed

lemma table_has_containment_description:
  "asc ''containment'' \<in> fst ` set FIELD_MAPPING \<and> asc ''description'' \<in> fst ` set FIELD_MAPPING"
  by (simp add: FIELD_MAPPING_def asc_def)

text \<open>
  C4, as stated, fails: the label \<open>id\<close> is no pattern of the synonym table, so it takes
  the fallback path, and its fallback key is \<open>id\<close>, a member of the canonical field
  set.
\<close>

theorem normalize_key_fallback_collides:
  "asc ''id'' \<noteq> []
   \<and> lookup_synonym basic_tables (u_lower basic_tables (rstrip_colons (strip (asc ''id'')))) = None
   \<and> normalize_key basic_tables (asc ''id'') \<in> set STANDARD_FIELDS"
  by (simp add: key_eval string_eval STANDARD_FIELDS_def)

text \<open>
  C4, amended. For every non-empty raw label that matches no synonym, the fallback key is
  never a pattern of the synonym table; among the canonical field names these are
  \<open>containment\<close> and \<open>description\<close>. (The other canonical names are no patterns of
  the table, and a label spelled like one of them falls back to that very name.)
\<close>

theorem normalize_key_fallback_no_table_key:
  assumes "tables_ok U" "key \<noteq> []"
    "lookup_synonym U (u_lower U (rstrip_colons (strip key))) = None"
  shows "normalize_key U key \<notin> fst ` set FIELD_MAPPING
         \<and> normalize_key U key \<noteq> asc ''containment''
         \<and> normalize_key U key \<noteq> asc ''description''"
proof -
  have n: "normalize_key U key \<notin> fst ` set FIELD_MAPPING"
    by (rule fallback_not_table_key [OF assms])
  have c: "asc ''containment'' \<in> fst ` set FIELD_MAPPING"
    and d: "asc ''description'' \<in> fst ` set FIELD_MAPPING"
    using table_has_containment_description by blast+
  show ?thesis
    using n c d by metis
qed

theorem normalize_key_fallback_no_table_key_witness:
  "tables_ok basic_tables
   \<and> asc ''Object  Class:'' \<noteq> []
   \<and> lookup_synonym basic_tables
         (u_lower basic_tables (rstrip_colons (strip (asc ''Object  Class:'')))) = None
   \<and> normalize_key basic_tables (asc ''Object  Class:'') = asc ''object__class''
   \<and> normalize_key basic_tables (asc ''Object  Class:'') \<notin> fst ` set FIELD_MAPPING
   \<and> normalize_key basic_tables (asc ''Object  Class:'') \<noteq> asc ''containment''
   \<and> normalize_key basic_tables (asc ''Object  Class:'') \<noteq> asc ''description''"
proof -
  have key: "asc ''Object  Class:'' \<noteq> []"
    by (simp add: asc_def)
  have none: "lookup_synonym basic_tables
      (u_lower basic_tables (rstrip_colons (strip (asc ''Object  Class:'')))) = None"
    by (simp add: key_eval string_eval)
  have val: "normalize_key basic_tables (asc ''Object  Class:'') = asc ''object__class''"
    by (simp add: key_eval string_eval)
  show ?thesis
    using normalize_key_fallback_no_table_key [OF basic_tables_ok key none] basic_tables_ok
      key none val
    by simp
qed

end
